theory Spec2Isabelle
  imports Complex_Main "HOL-Library.Word"
begin

unbundle bit_operations_syntax

section \<open>The swipe handler of the history view\<close>

text \<open>
  A shallow embedding of \<^verbatim>\<open>HistoryView::SetupSwipeHandler\<close>
  (\<^verbatim>\<open>history/history_view_swipe.cpp\<close>). The function installs an event filter whose
  closures share one mutable \<^verbatim>\<open>State\<close>; here every closure is a function from the state to
  the new state and the list of calls it makes on its collaborators, in program order.

  A \<^verbatim>\<open>float64\<close>, and so a coordinate of a \<^verbatim>\<open>QPointF\<close>, is modelled by the real
  number it denotes. Comparisons, negation, the absolute value and \<^verbatim>\<open>std::clamp\<close> are
  exact on doubles and are those of the reals; a division, a multiplication and a
  subtraction round their result, and the rounding is a parameter of the model. The
  constants \<open>0\<close>, \<open>1\<close> and \<open>1.5\<close> are doubles; \<open>0.95\<close> is not, and the constant of
  the source is the double nearest to it. The model follows the code on finite values and a
  non-zero threshold, and says nothing about NaN and infinities. \<^verbatim>\<open>int\<close> values (the cursor position, the
  durations, the event coordinates) are modelled by unbounded integers; no arithmetic of the
  source on them can overflow for widget coordinates.
\<close>

subsection \<open>Data\<close>

text \<open>\<^verbatim>\<open>Qt::Orientation\<close>; the state holds a \<^verbatim>\<open>std::optional\<close> of it.\<close>

datatype Orientation = Horizontal | Vertical

datatype QPointF = QPointF (px: real) (py: real)

text \<open>
  Modelled from the spec: \<^verbatim>\<open>SwipeHandlerFinishData\<close> and
  \<^verbatim>\<open>ChatPaintGestureHorizontalData\<close> are declared in
  \<^verbatim>\<open>history_view_swipe_data.h\<close>, which is not among the sources. The finish data is
  an item identifier and an optional completion action (an empty \<^verbatim>\<open>Fn\<close> is \<open>None\<close>);
  the paint data has the five fields \<^verbatim>\<open>updateRatio\<close> initialises. The type \<open>'f\<close>
  stands for the completion actions.
\<close>

record 'f SwipeHandlerFinishData =
  callback :: "'f option"
  msgBareId :: int

record ChatPaintGestureHorizontalData =
  ratio :: real
  reachRatio :: real
  translation :: int
  msgBareId_d :: int
  cursorTop_d :: int

text \<open>
  Modelled from the spec: \<^verbatim>\<open>Ui::Animations::Simple\<close> is an external collaborator
  (``each holds a target function, start value, end value, duration, and current elapsed
  progress''). A handle is \<open>None\<close> while it is not animating; \<^verbatim>\<open>value(d)\<close> is the current
  value of a running animation and \<open>d\<close> otherwise.
\<close>

datatype AnimId = AnimReach | AnimEnd

datatype AnimCallback = CbUpdateRatio | CbAnimationReachCallback

record AnimData =
  a_callback :: AnimCallback
  a_from :: real
  a_to :: real
  a_duration :: int
  a_current :: real

type_synonym Simple = "AnimData option"

definition anim_value :: "Simple \<Rightarrow> real \<Rightarrow> real" where
  "anim_value h d = (case h of None \<Rightarrow> d | Some a \<Rightarrow> a_current a)"

definition anim_start :: "AnimCallback \<Rightarrow> real \<Rightarrow> real \<Rightarrow> int \<Rightarrow> Simple" where
  "anim_start cb v0 v1 dur =
     Some \<lparr>a_callback = cb, a_from = v0, a_to = v1, a_duration = dur, a_current = v0\<rparr>"

text \<open>
  Every call the closures make on something outside the state, as one constructor:
  the caller's \<^verbatim>\<open>update\<close>, the two calls of \<^verbatim>\<open>setOrientation\<close> on the scroll area,
  \<^verbatim>\<open>Ui::PostponeCall\<close>, \<^verbatim>\<open>stop\<close> and \<^verbatim>\<open>start\<close> of an animation,
  \<^verbatim>\<open>base::Platform::Haptic\<close> and the caller's \<^verbatim>\<open>generateFinishByTop\<close>.
  \<^verbatim>\<open>PostponeCall\<close> is the only use the source makes of a completion action.
\<close>

datatype 'f Effect =
    Update ChatPaintGestureHorizontalData
  | SetAcceptTouchEvents bool
  | DisableScroll bool
  | PostponeCall 'f
  | AnimationStop AnimId
  | AnimationStart AnimId AnimCallback real real int
  | Haptic
  | GenerateFinishByTop int

text \<open>Projections of a list of calls: the calls of one kind, in order.\<close>

fun postponed :: "'f Effect list \<Rightarrow> 'f list" where
  "postponed [] = []"
| "postponed (PostponeCall f # es) = f # postponed es"
| "postponed (_ # es) = postponed es"

fun notifications :: "'f Effect list \<Rightarrow> ChatPaintGestureHorizontalData list" where
  "notifications [] = []"
| "notifications (Update d # es) = d # notifications es"
| "notifications (_ # es) = notifications es"

fun resolver_calls :: "'f Effect list \<Rightarrow> int list" where
  "resolver_calls [] = []"
| "resolver_calls (GenerateFinishByTop y # es) = y # resolver_calls es"
| "resolver_calls (_ # es) = resolver_calls es"

fun is_scroll_call :: "'f Effect \<Rightarrow> bool" where
  "is_scroll_call (SetAcceptTouchEvents _) = True"
| "is_scroll_call (DisableScroll _) = True"
| "is_scroll_call _ = False"

fun is_anim_call :: "'f Effect \<Rightarrow> bool" where
  "is_anim_call (AnimationStop _) = True"
| "is_anim_call (AnimationStart _ _ _ _ _) = True"
| "is_anim_call _ = False"

fun is_start_of :: "AnimId \<Rightarrow> 'f Effect \<Rightarrow> bool" where
  "is_start_of a (AnimationStart b _ _ _ _) = (a = b)"
| "is_start_of a _ = False"

definition scroll_calls :: "'f Effect list \<Rightarrow> 'f Effect list" where
  "scroll_calls es = filter is_scroll_call es"

definition anim_calls :: "'f Effect list \<Rightarrow> 'f Effect list" where
  "anim_calls es = filter is_anim_call es"

definition starts_of :: "AnimId \<Rightarrow> 'f Effect list \<Rightarrow> 'f Effect list" where
  "starts_of a es = filter (is_start_of a) es"

definition haptics :: "'f Effect list \<Rightarrow> nat" where
  "haptics es = length (filter (\<lambda>e. e = Haptic) es)"

text \<open>The \<^verbatim>\<open>State\<close> struct (without the filter object and the lifetime it owns).\<close>

record 'f State =
  animationReach :: Simple
  animationEnd :: Simple
  finishByTopData :: "'f SwipeHandlerFinishData"
  orientation :: "Orientation option"
  startAt :: QPointF
  delta :: QPointF
  cursorTop :: int
  started :: bool
  reached :: bool
  touch :: bool

text \<open>The state as \<^verbatim>\<open>make_state<State>()\<close> leaves it.\<close>

definition initial_state :: "'f State" where
  "initial_state =
     \<lparr>animationReach = None, animationEnd = None,
      finishByTopData = \<lparr>callback = None, msgBareId = 0\<rparr>,
      orientation = None, startAt = QPointF 0 0, delta = QPointF 0 0,
      cursorTop = 0, started = False, reached = False, touch = False\<rparr>"

record UpdateArgs =
  arg_position :: QPointF
  arg_delta :: QPointF
  arg_touch :: bool

text \<open>
  What the closures capture or read from the platform: \<^verbatim>\<open>threshold\<close>
  (\<^verbatim>\<open>style::ConvertFloatScale(kThresholdWidth)\<close>), \<^verbatim>\<open>st::slideWrapDuration\<close>,
  \<^verbatim>\<open>Platform::IsMac()\<close>, \<^verbatim>\<open>QApplication::startDragDistance()\<close>, the caller's
  \<^verbatim>\<open>generateFinishByTop\<close> and \<^verbatim>\<open>base::SafeRound\<close>. None of them is defined in the
  sources, so each is a parameter. The last parameter, \<open>rnd\<close>, is the rounding of a real
  number to a \<^verbatim>\<open>double\<close> (to the nearest, in the program): what is proved holds for
  every rounding.
\<close>

record 'f Env =
  threshold :: real
  slideWrapDuration :: int
  isMac :: bool
  startDragDistance :: int
  generateFinishByTop :: "int \<Rightarrow> 'f SwipeHandlerFinishData"
  SafeRound :: "real \<Rightarrow> real"
  rnd :: "real \<Rightarrow> real"

text \<open>
  Arithmetic on \<^verbatim>\<open>double\<close>: the quotient, the product and the difference of two doubles
  are the exact results rounded to a double. The source divides in \<^verbatim>\<open>processEnd\<close>,
  \<^verbatim>\<open>animationReachCallback\<close> and \<^verbatim>\<open>updateWith\<close>, multiplies in \<^verbatim>\<open>updateRatio\<close>
  and subtracts in \<^verbatim>\<open>updateWith\<close> and, on \<^verbatim>\<open>QPointF\<close>, in the filter.
\<close>

definition fdiv :: "'f Env \<Rightarrow> real \<Rightarrow> real \<Rightarrow> real" where
  "fdiv env a b = rnd env (a / b)"

definition fmul :: "'f Env \<Rightarrow> real \<Rightarrow> real \<Rightarrow> real" where
  "fmul env a b = rnd env (a * b)"

definition fsub :: "'f Env \<Rightarrow> real \<Rightarrow> real \<Rightarrow> real" where
  "fsub env a b = rnd env (a - b)"

text \<open>\<^verbatim>\<open>QPointF::operator-\<close>: the difference of the coordinates.\<close>

definition minusP :: "'f Env \<Rightarrow> QPointF \<Rightarrow> QPointF \<Rightarrow> QPointF" where
  "minusP env a b = QPointF (fsub env (px a) (px b)) (fsub env (py a) (py b))"

subsection \<open>The closures\<close>

text \<open>\<^verbatim>\<open>std::clamp(v, lo, hi)\<close>.\<close>

definition clamp :: "real \<Rightarrow> real \<Rightarrow> real \<Rightarrow> real" where
  "clamp v lo hi = (if v < lo then lo else if hi < v then hi else v)"

text \<open>The conversion \<^verbatim>\<open>int(d)\<close> of a \<^verbatim>\<open>double\<close>: towards zero.\<close>

definition to_int :: "real \<Rightarrow> int" where
  "to_int d = (if 0 \<le> d then \<lfloor>d\<rfloor> else \<lceil>d\<rceil>)"

definition updateRatio :: "'f Env \<Rightarrow> 'f State \<Rightarrow> real \<Rightarrow> 'f Effect list" where
  "updateRatio env st r =
     [Update \<lparr>ratio = clamp r 0 1.5,
              reachRatio = anim_value (animationReach st) 0,
              translation = to_int (SafeRound env (fmul env (- clamp r 0 1.5) (threshold env))),
              msgBareId_d = msgBareId (finishByTopData st),
              cursorTop_d = cursorTop st\<rparr>]"

definition setOrientation ::
  "'f State \<Rightarrow> Orientation option \<Rightarrow> 'f State \<times> 'f Effect list" where
  "setOrientation st o' =
     (let isHorizontal = (o' = Some Horizontal)
      in (st\<lparr>orientation := o'\<rparr>,
          [SetAcceptTouchEvents (\<not> isHorizontal), DisableScroll isHorizontal]))"

definition processEnd ::
  "'f Env \<Rightarrow> 'f State \<Rightarrow> QPointF option \<Rightarrow> 'f State \<times> 'f Effect list" where
  "processEnd env st d =
     (let (st1, es1) =
        (if orientation st = Some Horizontal then
           (let r = fdiv env (px (case d of Some v \<Rightarrow> v | None \<Rightarrow> delta st)) (threshold env);
                post = (if r \<ge> 1
                        then (case callback (finishByTopData st) of
                                Some f \<Rightarrow> [PostponeCall f] | None \<Rightarrow> [])
                        else [])
            in (st\<lparr>animationReach := None,
                    animationEnd := anim_start CbUpdateRatio r 0 (slideWrapDuration env)\<rparr>,
                post @ [AnimationStop AnimReach, AnimationStop AnimEnd,
                        AnimationStart AnimEnd CbUpdateRatio r 0 (slideWrapDuration env)]))
         else (st, []));
          (st2, es2) = setOrientation st1 None
      in (st2\<lparr>started := False, reached := False\<rparr>, es1 @ es2))"

definition animationReachCallback :: "'f Env \<Rightarrow> 'f State \<Rightarrow> 'f Effect list" where
  "animationReachCallback env st = updateRatio env st (fdiv env (px (delta st)) (threshold env))"

text \<open>
  \<^verbatim>\<open>updateWith\<close>; \<open>cy\<close> is what \<^verbatim>\<open>widget->mapFromGlobal(QCursor::pos()).y()\<close> returns
  during the call.
\<close>

definition kOrientationThreshold :: real where
  "kOrientationThreshold = 1"

text \<open>
  \<^verbatim>\<open>constexpr auto kResetReachedOn = 0.95\<close> is the double nearest to 0.95, which is
  \<open>4278419646001971 / 2 ^ 52\<close>, a little below 0.95.
\<close>

definition kResetReachedOn :: real where
  "kResetReachedOn = 4278419646001971 / 4503599627370496"

definition kBounceDuration :: int where
  "kBounceDuration = 500"

definition updateWith ::
  "'f Env \<Rightarrow> int \<Rightarrow> 'f State \<Rightarrow> UpdateArgs \<Rightarrow> 'f State \<times> 'f Effect list" where
  "updateWith env cy st args =
     (if \<not> started st \<or> touch st \<noteq> arg_touch args then
        (let st1 = st\<lparr>started := True, touch := arg_touch args,
                      startAt := arg_position args, delta := QPointF 0 0,
                      cursorTop := cy\<rparr>;
             st2 = st1\<lparr>finishByTopData := generateFinishByTop env (cursorTop st1)\<rparr>
         in if callback (finishByTopData st2) = None
            then (let (st3, es) = setOrientation st2 (Some Vertical)
                  in (st3, GenerateFinishByTop (cursorTop st1) # es))
            else (st2, [GenerateFinishByTop (cursorTop st1)]))
      else if orientation st = None then
        (let st1 = st\<lparr>delta := arg_delta args\<rparr>;
             diffXtoY = fsub env \<bar>px (arg_delta args)\<bar> \<bar>py (arg_delta args)\<bar>
         in if diffXtoY > kOrientationThreshold then setOrientation st1 (Some Horizontal)
            else if diffXtoY < - kOrientationThreshold then setOrientation st1 (Some Vertical)
            else setOrientation st1 None)
      else if orientation st = Some Horizontal then
        (let st1 = st\<lparr>delta := arg_delta args\<rparr>;
             r = fdiv env (px (arg_delta args)) (threshold env);
             es = updateRatio env st1 r
         in if \<not> reached st1 \<and> r \<ge> 1 then
              (st1\<lparr>reached := True,
                    animationReach := anim_start CbAnimationReachCallback 0 1 kBounceDuration\<rparr>,
               es @ [AnimationStop AnimReach,
                     AnimationStart AnimReach CbAnimationReachCallback 0 1 kBounceDuration,
                     Haptic])
            else if reached st1 \<and> r < kResetReachedOn then (st1\<lparr>reached := False\<rparr>, es)
            else (st1, es))
      else (st, []))"

subsection \<open>The event filter\<close>

text \<open>
  The events the filter distinguishes, each with what the filter reads from it: the
  position of a mouse move; the type, the device (a null pointer is \<open>None\<close>) and the touch
  points of a touch event; the phase, the pressed buttons and \<^verbatim>\<open>Ui::ScrollDelta(w)\<close> of a
  wheel event. A touch point's state is the flag word \<^verbatim>\<open>Qt::TouchPointStates\<close>, in which
  \<^verbatim>\<open>Qt::TouchPointReleased\<close> is the bit \<open>0x08\<close>.
\<close>

datatype TouchType = TouchBegin | TouchUpdate | TouchEnd | TouchCancel

datatype TouchDeviceType = TouchScreen | TouchPad

datatype ScrollPhase = NoScrollPhase | ScrollBegin | ScrollUpdate | ScrollEnd | ScrollMomentum

record TouchPoint =
  tp_state :: "32 word"
  tp_pos :: QPointF

datatype QEvent =
    Leave
  | MouseMove int int
  | TouchEvent TouchType "TouchDeviceType option" "TouchPoint list"
  | Wheel ScrollPhase "32 word" QPointF
  | OtherEvent

datatype EventFilterResult = Continue | Cancel

definition TouchPointReleased :: "32 word" where
  "TouchPointReleased = 0x08"

definition released :: "TouchPoint list \<Rightarrow> nat \<Rightarrow> bool" where
  "released touches index =
     (length touches > index \<and> (tp_state (touches ! index) AND TouchPointReleased) \<noteq> 0)"

definition touch_cancel :: "TouchType \<Rightarrow> bool \<Rightarrow> TouchPoint list \<Rightarrow> bool" where
  "touch_cancel ty touchscreen touches =
     (released touches 0 \<or> released touches 1
      \<or> (if touchscreen then length touches \<noteq> 1
          else (length touches \<le> 0 \<or> length touches > 2))
      \<or> ty = TouchEnd \<or> ty = TouchCancel)"

definition wheel_cancel :: "ScrollPhase \<Rightarrow> 32 word \<Rightarrow> bool" where
  "wheel_cancel phase buttons =
     (buttons \<noteq> 0 \<or> phase = ScrollEnd \<or> phase = ScrollMomentum)"

definition filter_event ::
  "'f Env \<Rightarrow> int \<Rightarrow> 'f State \<Rightarrow> QEvent \<Rightarrow> 'f State \<times> 'f Effect list \<times> EventFilterResult" where
  "filter_event env cy st e =
     (case e of
        Leave \<Rightarrow>
          (if orientation st \<noteq> None
           then (let (st1, es) = processEnd env st None in (st1, es, Continue))
           else (st, [], Continue))
      | MouseMove mx my \<Rightarrow>
          (if orientation st \<noteq> None \<and> \<bar>my - cursorTop st\<bar> > startDragDistance env
           then (let (st1, es) = processEnd env st None in (st1, es, Continue))
           else (st, [], Continue))
      | TouchEvent ty device touches \<Rightarrow>
          (let touchscreen = (device = Some TouchScreen)
           in if \<not> isMac env \<and> \<not> touchscreen then (st, [], Continue)
              else if touch_cancel ty touchscreen touches then
                (let (st1, es) =
                   processEnd env st
                     (if touches = [] then None
                      else Some (minusP env (startAt st) (tp_pos (touches ! 0))))
                 in (st1, es, Cancel))
              else
                (let (st1, es) =
                   updateWith env cy st
                     \<lparr>arg_position = tp_pos (touches ! 0),
                      arg_delta = minusP env (startAt st) (tp_pos (touches ! 0)),
                      arg_touch = True\<rparr>
                 in (st1, es, Cancel)))
      | Wheel phase buttons scrollDelta \<Rightarrow>
          (if isMac env \<or> phase = NoScrollPhase then (st, [], Continue)
           else if wheel_cancel phase buttons then
             (let (st1, es) = processEnd env st None in (st1, es, Continue))
           else
             (let (st1, es) =
                updateWith env cy st
                  \<lparr>arg_position = QPointF 0 0,
                   arg_delta = minusP env (delta st) scrollDelta,
                   arg_touch = False\<rparr>
              in (st1, es, Continue)))
      | OtherEvent \<Rightarrow> (st, [], Continue))"

subsection \<open>Runs\<close>

text \<open>
  What reaches the closures: an event delivered to the filter (with the cursor position
  of that moment), a value of \<^verbatim>\<open>scroll->scrolls()\<close>, whose subscriber calls
  \<^verbatim>\<open>processEnd()\<close>, and a tick of one of the two animations.

  Modelled from the spec: the animator ``runs timed value interpolations and invokes a
  progress callback each tick''. A tick of a running animation carries the animation's new
  value \<open>v\<close> and whether it is the last one; \<^verbatim>\<open>animationReach\<close> is only ever started
  with \<^verbatim>\<open>animationReachCallback\<close>, which takes no argument, and \<^verbatim>\<open>animationEnd\<close>
  with \<^verbatim>\<open>updateRatio\<close>, which receives \<open>v\<close>. A handle that is not animating does not
  tick.
\<close>

datatype Input = EventIn int QEvent | Scrolls | Tick AnimId real bool

definition ticked :: "AnimData \<Rightarrow> real \<Rightarrow> bool \<Rightarrow> Simple" where
  "ticked a v fin = (if fin then None else Some (a\<lparr>a_current := v\<rparr>))"

definition step :: "'f Env \<Rightarrow> 'f State \<Rightarrow> Input \<Rightarrow> 'f State \<times> 'f Effect list" where
  "step env st inp =
     (case inp of
        EventIn cy e \<Rightarrow> (let (st1, es, res) = filter_event env cy st e in (st1, es))
      | Scrolls \<Rightarrow> processEnd env st None
      | Tick AnimReach v fin \<Rightarrow>
          (case animationReach st of
             None \<Rightarrow> (st, [])
           | Some a \<Rightarrow>
               (let st1 = st\<lparr>animationReach := ticked a v fin\<rparr>
                in (st1, animationReachCallback env st1)))
      | Tick AnimEnd v fin \<Rightarrow>
          (case animationEnd st of
             None \<Rightarrow> (st, [])
           | Some a \<Rightarrow>
               (let st1 = st\<lparr>animationEnd := ticked a v fin\<rparr>
                in (st1, updateRatio env st1 v))))"

fun run :: "'f Env \<Rightarrow> 'f State \<Rightarrow> Input list \<Rightarrow> 'f State \<times> 'f Effect list" where
  "run env st [] = (st, [])"
| "run env st (i # is) =
     (let (st1, es1) = step env st i; (st2, es2) = run env st1 is in (st2, es1 @ es2))"

text \<open>A sequence of update samples fed to \<^verbatim>\<open>updateWith\<close> one after the other.\<close>

fun updates ::
  "'f Env \<Rightarrow> 'f State \<Rightarrow> (int \<times> UpdateArgs) list \<Rightarrow> 'f State \<times> 'f Effect list" where
  "updates env st [] = (st, [])"
| "updates env st ((cy, args) # xs) =
     (let (st1, es1) = updateWith env cy st args; (st2, es2) = updates env st1 xs
      in (st2, es1 @ es2))"

text \<open>The live ratio of a sample.\<close>

definition sample_ratio :: "'f Env \<Rightarrow> int \<times> UpdateArgs \<Rightarrow> real" where
  "sample_ratio env s = fdiv env (px (arg_delta (snd s))) (threshold env)"

text \<open>
  The crossings of a sequence of ratios, as the spec words them: the flag becomes true on
  a ratio of at least 1 and false again only on a ratio below the floor, the constant
  written 0.95; a crossing is a ratio of at least 1 met while the flag is false. The first
  argument is the flag before the sequence.
\<close>

fun crossings :: "bool \<Rightarrow> real list \<Rightarrow> nat" where
  "crossings flag [] = 0"
| "crossings flag (r # rs) =
     (if \<not> flag \<and> r \<ge> 1 then Suc (crossings True rs)
      else if flag \<and> r < kResetReachedOn then crossings False rs
      else crossings flag rs)"

subsection \<open>A concrete setting\<close>

text \<open>
  An environment at scale 100 (threshold 50) off macOS, whose resolver finds a completion
  action \<open>1\<close> for item \<open>7\<close> everywhere; \<^verbatim>\<open>SafeRound\<close> is taken to be \<^verbatim>\<open>std::round\<close>
  (halves away from zero). Its arithmetic rounds nothing: the numbers of the examples
  below are chosen so that every quotient, product and difference computed on them is a
  double (a multiple of a small power of \<open>1/2\<close>), which the program computes exactly too.
\<close>

definition std_round :: "real \<Rightarrow> real" where
  "std_round d = (if 0 \<le> d then of_int \<lfloor>d + 1/2\<rfloor> else of_int \<lceil>d - 1/2\<rceil>)"

definition env0 :: "nat Env" where
  "env0 = \<lparr>threshold = 50, slideWrapDuration = 150, isMac = False, startDragDistance = 10,
           generateFinishByTop = (\<lambda>y. \<lparr>callback = Some 1, msgBareId = 7\<rparr>),
           SafeRound = std_round, rnd = (\<lambda>d. d)\<rparr>"

text \<open>The same environment with a resolver that finds no completion action.\<close>

definition env_none :: "nat Env" where
  "env_none = env0\<lparr>generateFinishByTop := (\<lambda>y. \<lparr>callback = None, msgBareId = 0\<rparr>)\<rparr>"

text \<open>One finger on a touchscreen at a position, pressed or moved.\<close>

definition finger :: "real \<Rightarrow> real \<Rightarrow> TouchPoint list" where
  "finger a b = [\<lparr>tp_state = 0x02, tp_pos = QPointF a b\<rparr>]"

definition touch_at :: "TouchType \<Rightarrow> real \<Rightarrow> real \<Rightarrow> Input" where
  "touch_at ty a b = EventIn 10 (TouchEvent ty (Some TouchScreen) (finger a b))"

text \<open>
  A finger put down at \<open>(200, 100)\<close> and moved 100 units to the left: the gesture starts,
  becomes horizontal and is sampled once more.
\<close>

definition swipe_left :: "Input list" where
  "swipe_left =
     [touch_at TouchBegin 200 100, touch_at TouchUpdate 100 100, touch_at TouchUpdate 100 100]"

text \<open>The state once the finger is down, and the state once the swipe is horizontal.\<close>

definition st_tracking :: "nat State" where
  "st_tracking = fst (run env0 initial_state [touch_at TouchBegin 200 100])"

definition st_horizontal :: "nat State" where
  "st_horizontal = fst (run env0 initial_state swipe_left)"

text \<open>The finger lifted where it was: the release of the swipe.\<close>

definition st_released :: "nat State" where
  "st_released = fst (run env0 initial_state (swipe_left @ [touch_at TouchEnd 100 100]))"

text \<open>A move of half a unit to the left, as the filter passes it on.\<close>

definition small_move :: UpdateArgs where
  "small_move =
     \<lparr>arg_position = QPointF 199.5 100, arg_delta = QPointF 0.5 0, arg_touch = True\<rparr>"

text \<open>
  A wheel gesture of 75 units: the first event starts it, the second makes it horizontal.
  Then the state it leaves.
\<close>

definition wheel_swipe :: "Input list" where
  "wheel_swipe =
     [EventIn 10 (Wheel ScrollUpdate 0 (QPointF 0 0)),
      EventIn 10 (Wheel ScrollUpdate 0 (QPointF (- 75) 0))]"

definition st_wheel :: "nat State" where
  "st_wheel = fst (run env0 initial_state wheel_swipe)"

text \<open>Horizontal samples with the ratios 0.25, 1.25, 1.5, 0.96875 and 2.\<close>

definition sample_at :: "real \<Rightarrow> int \<times> UpdateArgs" where
  "sample_at dx =
     (10, \<lparr>arg_position = QPointF (200 - dx) 100, arg_delta = QPointF dx 0, arg_touch = True\<rparr>)"

definition five_samples :: "(int \<times> UpdateArgs) list" where
  "five_samples =
     [sample_at 12.5, sample_at 62.5, sample_at 75, sample_at 48.4375, sample_at 100]"

subsection \<open>The invariant of idle states\<close>

text \<open>
  While no gesture is in progress the orientation is unset and the threshold is not
  reached: \<^verbatim>\<open>processEnd\<close> clears the three fields together, and only
  \<^verbatim>\<open>updateWith\<close> sets an orientation or the flag, on a started gesture.
\<close>

definition idle_clear :: "'f State \<Rightarrow> bool" where
  "idle_clear st = (started st \<or> (orientation st = None \<and> \<not> reached st))"

section \<open>Auxiliary facts\<close>

lemma postponed_append: "postponed (xs @ ys) = postponed xs @ postponed ys"
  by (induction xs rule: postponed.induct) simp_all

lemma notifications_append: "notifications (xs @ ys) = notifications xs @ notifications ys"
  by (induction xs rule: notifications.induct) simp_all

lemma resolver_calls_append: "resolver_calls (xs @ ys) = resolver_calls xs @ resolver_calls ys"
  by (induction xs rule: resolver_calls.induct) simp_all

lemma starts_of_append: "starts_of a (xs @ ys) = starts_of a xs @ starts_of a ys"
  by (simp add: starts_of_def)

lemma haptics_append: "haptics (xs @ ys) = haptics xs + haptics ys"
  by (simp add: haptics_def)

lemma clamp_bounds: "lo \<le> hi \<Longrightarrow> lo \<le> clamp v lo hi \<and> clamp v lo hi \<le> hi"
  by (simp add: clamp_def)

subsection \<open>The example states, evaluated\<close>

lemmas closure_defs =
  updateWith_def processEnd_def setOrientation_def updateRatio_def animationReachCallback_def
  filter_event_def touch_cancel_def wheel_cancel_def released_def TouchPointReleased_def
  step_def ticked_def anim_start_def anim_value_def clamp_def to_int_def minusP_def
  fdiv_def fmul_def fsub_def
  kOrientationThreshold_def kResetReachedOn_def kBounceDuration_def Let_def

lemmas arith_defs = fdiv_def fmul_def fsub_def

lemmas example_defs =
  env0_def env_none_def std_round_def initial_state_def finger_def touch_at_def swipe_left_def
  wheel_swipe_def small_move_def sample_at_def five_samples_def

lemma st_tracking_eq:
  "st_tracking =
     \<lparr>animationReach = None, animationEnd = None,
      finishByTopData = \<lparr>callback = Some 1, msgBareId = 7\<rparr>,
      orientation = None, startAt = QPointF 200 100, delta = QPointF 0 0,
      cursorTop = 10, started = True, reached = False, touch = True\<rparr>"
  by (simp add: st_tracking_def closure_defs example_defs)

lemma st_horizontal_eq:
  "st_horizontal =
     \<lparr>animationReach =
        Some \<lparr>a_callback = CbAnimationReachCallback, a_from = 0, a_to = 1,
              a_duration = 500, a_current = 0\<rparr>,
      animationEnd = None,
      finishByTopData = \<lparr>callback = Some 1, msgBareId = 7\<rparr>,
      orientation = Some Horizontal, startAt = QPointF 200 100,
      delta = QPointF 100 0, cursorTop = 10, started = True, reached = True,
      touch = True\<rparr>"
  by (simp add: st_horizontal_def closure_defs example_defs)

lemma st_released_eq:
  "st_released =
     \<lparr>animationReach = None,
      animationEnd =
        Some \<lparr>a_callback = CbUpdateRatio, a_from = 2, a_to = 0, a_duration = 150,
              a_current = 2\<rparr>,
      finishByTopData = \<lparr>callback = Some 1, msgBareId = 7\<rparr>,
      orientation = None, startAt = QPointF 200 100, delta = QPointF 100 0,
      cursorTop = 10, started = False, reached = False, touch = True\<rparr>"
  by (simp add: st_released_def closure_defs example_defs)

lemma st_wheel_eq:
  "st_wheel =
     \<lparr>animationReach = None, animationEnd = None,
      finishByTopData = \<lparr>callback = Some 1, msgBareId = 7\<rparr>,
      orientation = Some Horizontal, startAt = QPointF 0 0,
      delta = QPointF 75 0, cursorTop = 10, started = True, reached = False,
      touch = False\<rparr>"
  by (simp add: st_wheel_def closure_defs example_defs)

subsection \<open>What the filter does to the state\<close>

text \<open>
  The filter leaves the state alone, or ends the gesture, or feeds one update: its state
  and calls are those of \<^verbatim>\<open>processEnd\<close> or of \<^verbatim>\<open>updateWith\<close>.
\<close>

lemma filter_event_state:
  "(fst (filter_event env cy st e), fst (snd (filter_event env cy st e))) = (st, [])
   \<or> (\<exists>d. (fst (filter_event env cy st e), fst (snd (filter_event env cy st e)))
            = processEnd env st d)
   \<or> (\<exists>args. (fst (filter_event env cy st e), fst (snd (filter_event env cy st e)))
            = updateWith env cy st args)"
  by (cases e) (auto simp add: filter_event_def Let_def case_prod_beta)

lemma processEnd_idle: "idle_clear (fst (processEnd env st d))"
  by (simp add: processEnd_def setOrientation_def Let_def idle_clear_def split: prod.splits)

lemma updateWith_idle: "idle_clear st \<Longrightarrow> idle_clear (fst (updateWith env cy st args))"
  by (auto simp add: updateWith_def setOrientation_def Let_def idle_clear_def)

lemma filter_event_idle: "idle_clear st \<Longrightarrow> idle_clear (fst (filter_event env cy st e))"
  using filter_event_state [of env cy st e] processEnd_idle [of env st]
    updateWith_idle [of st env cy]
  by (metis fst_conv)

lemma step_idle: "idle_clear st \<Longrightarrow> idle_clear (fst (step env st inp))"
proof (cases inp)
  case (EventIn cy e)
  assume "idle_clear st"
  then show ?thesis
    using filter_event_idle [of st env cy e] by (simp add: step_def EventIn case_prod_beta)
next
  case Scrolls
  then show ?thesis by (simp add: step_def processEnd_idle)
next
  case (Tick a v fin)
  assume "idle_clear st"
  then show ?thesis
    by (cases a) (auto simp add: step_def Tick idle_clear_def Let_def split: option.splits)
qed

lemma run_idle: "idle_clear st \<Longrightarrow> idle_clear (fst (run env st ins))"
proof (induction ins arbitrary: st)
  case Nil
  then show ?case by simp
next
  case (Cons i ins)
  from Cons.IH [OF step_idle [OF Cons.prems, of env i]]
  show ?case by (simp add: case_prod_beta)
qed

lemma reachable_idle: "idle_clear (fst (run env initial_state ins))"
  by (rule run_idle) (simp add: idle_clear_def initial_state_def)

subsection \<open>Notifications\<close>

lemma processEnd_notifications: "notifications (snd (processEnd env st d)) = []"
  by (simp add: processEnd_def setOrientation_def Let_def notifications_append
      split: option.splits)

lemma updateRatio_notifications:
  "notifications (updateRatio env st r) =
     [\<lparr>ratio = clamp r 0 1.5,
       reachRatio = anim_value (animationReach st) 0,
       translation = to_int (SafeRound env (fmul env (- clamp r 0 1.5) (threshold env))),
       msgBareId_d = msgBareId (finishByTopData st),
       cursorTop_d = cursorTop st\<rparr>]"
  by (simp add: updateRatio_def)

lemma updateWith_notifications:
  assumes "d \<in> set (notifications (snd (updateWith env cy st args)))"
  shows "ratio d = clamp (fdiv env (px (delta (fst (updateWith env cy st args)))) (threshold env)) 0 1.5
       \<and> translation d = to_int (SafeRound env
           (fmul env (- clamp (fdiv env (px (delta (fst (updateWith env cy st args)))) (threshold env)) 0 1.5) (threshold env)))"
  using assms
  by (auto simp add: updateWith_def setOrientation_def Let_def notifications_append
      updateRatio_notifications split: if_splits)

lemma filter_event_notifications:
  assumes "d \<in> set (notifications (fst (snd (filter_event env cy st e))))"
  shows "ratio d = clamp (fdiv env (px (delta (fst (filter_event env cy st e)))) (threshold env)) 0 1.5
       \<and> translation d = to_int (SafeRound env
           (fmul env (- clamp (fdiv env (px (delta (fst (filter_event env cy st e)))) (threshold env)) 0 1.5) (threshold env)))"
proof -
  let ?st = "fst (filter_event env cy st e)" and ?es = "fst (snd (filter_event env cy st e))"
  consider "(?st, ?es) = (st, [])" | dd where "(?st, ?es) = processEnd env st dd"
    | args where "(?st, ?es) = updateWith env cy st args"
    using filter_event_state [of env cy st e] by blast
  then show ?thesis
  proof cases
    case 1
    then show ?thesis using assms by simp
  next
    case 2
    then have "?es = snd (processEnd env st dd)" by (metis snd_conv)
    then show ?thesis using assms processEnd_notifications [of env st dd] by simp
  next
    case 3
    then have "?es = snd (updateWith env cy st args)" "?st = fst (updateWith env cy st args)"
      by (metis snd_conv, metis fst_conv)
    then show ?thesis using assms updateWith_notifications [of d env cy st args] by simp
  qed
qed

subsection \<open>Calls of the resolver\<close>

lemma processEnd_resolver_calls: "resolver_calls (snd (processEnd env st d)) = []"
  by (simp add: processEnd_def setOrientation_def Let_def resolver_calls_append
      split: option.splits)

lemma updateWith_resolver_calls:
  "resolver_calls (snd (updateWith env cy st args)) =
     (if \<not> started st \<or> touch st \<noteq> arg_touch args then [cy] else [])"
  by (simp add: updateWith_def setOrientation_def Let_def resolver_calls_append updateRatio_def)

lemma updateWith_first:
  assumes "\<not> started st \<or> touch st \<noteq> arg_touch args"
  shows "started (fst (updateWith env cy st args))
       \<and> touch (fst (updateWith env cy st args)) = arg_touch args
       \<and> cursorTop (fst (updateWith env cy st args)) = cy
       \<and> delta (fst (updateWith env cy st args)) = QPointF 0 0"
  using assms by (auto simp add: updateWith_def setOrientation_def Let_def)

lemma step_resolver_calls:
  assumes "resolver_calls (snd (step env st inp)) \<noteq> []"
  shows "resolver_calls (snd (step env st inp)) = [cursorTop (fst (step env st inp))]
       \<and> started (fst (step env st inp))
       \<and> delta (fst (step env st inp)) = QPointF 0 0
       \<and> (\<not> started st \<or> touch st \<noteq> touch (fst (step env st inp)))"
proof (cases inp)
  case (EventIn cy e)
  let ?st = "fst (filter_event env cy st e)" and ?es = "fst (snd (filter_event env cy st e))"
  have s: "fst (step env st inp) = ?st" "snd (step env st inp) = ?es"
    by (simp_all add: step_def EventIn case_prod_beta)
  consider "(?st, ?es) = (st, [])" | dd where "(?st, ?es) = processEnd env st dd"
    | args where "(?st, ?es) = updateWith env cy st args"
    using filter_event_state [of env cy st e] by blast
  then show ?thesis
  proof cases
    case 1
    then show ?thesis using assms s by simp
  next
    case 2
    then have "?es = snd (processEnd env st dd)" by (metis snd_conv)
    then show ?thesis using assms s processEnd_resolver_calls [of env st dd] by simp
  next
    case 3
    then have u: "?es = snd (updateWith env cy st args)" "?st = fst (updateWith env cy st args)"
      by (metis snd_conv, metis fst_conv)
    with assms s have f: "\<not> started st \<or> touch st \<noteq> arg_touch args"
      by (auto simp add: updateWith_resolver_calls split: if_splits)
    from updateWith_first [OF f, of env cy] f show ?thesis
      unfolding s u by (auto simp add: updateWith_resolver_calls)
  qed
next
  case Scrolls
  then show ?thesis using assms by (simp add: step_def processEnd_resolver_calls)
next
  case (Tick a v fin)
  then show ?thesis
    using assms
    by (cases a)
      (auto simp add: step_def Let_def updateRatio_def animationReachCallback_def
        split: option.splits)
qed

subsection \<open>Horizontal tracking\<close>

lemma updateWith_horizontal:
  assumes "started st" and "orientation st = Some Horizontal" and "arg_touch args = touch st"
  shows "updateWith env cy st args =
     (let st1 = st\<lparr>delta := arg_delta args\<rparr>;
          r = fdiv env (px (arg_delta args)) (threshold env);
          es = updateRatio env st1 r
      in if \<not> reached st \<and> r \<ge> 1 then
           (st1\<lparr>reached := True,
                 animationReach := anim_start CbAnimationReachCallback 0 1 kBounceDuration\<rparr>,
            es @ [AnimationStop AnimReach,
                  AnimationStart AnimReach CbAnimationReachCallback 0 1 kBounceDuration,
                  Haptic])
         else if reached st \<and> r < kResetReachedOn then (st1\<lparr>reached := False\<rparr>, es)
         else (st1, es))"
  using assms by (simp add: updateWith_def Let_def)

lemma updateWith_horizontal_state:
  assumes "started st" and "orientation st = Some Horizontal" and "arg_touch args = touch st"
    and "updateWith env cy st args = (st', es)"
  shows "started st' \<and> orientation st' = Some Horizontal \<and> touch st' = touch st
     \<and> reached st' =
         (if \<not> reached st \<and> fdiv env (px (arg_delta args)) (threshold env) \<ge> 1 then True
          else if reached st \<and> fdiv env (px (arg_delta args)) (threshold env) < kResetReachedOn
          then False
          else reached st)"
  using assms unfolding updateWith_horizontal [OF assms(1-3)]
  by (auto simp add: Let_def split: if_splits)

lemma updateWith_horizontal_effects:
  assumes "started st" and "orientation st = Some Horizontal" and "arg_touch args = touch st"
    and "updateWith env cy st args = (st', es)"
  shows "starts_of AnimReach es =
           (if \<not> reached st \<and> fdiv env (px (arg_delta args)) (threshold env) \<ge> 1
            then [AnimationStart AnimReach CbAnimationReachCallback 0 1 500] else [])
       \<and> haptics es = (if \<not> reached st \<and> fdiv env (px (arg_delta args)) (threshold env) \<ge> 1 then 1 else 0)"
  using assms(4) unfolding updateWith_horizontal [OF assms(1-3)]
  by (auto simp add: Let_def kBounceDuration_def updateRatio_def starts_of_def haptics_def
      split: if_splits)

lemma updates_horizontal:
  assumes "started st" and "orientation st = Some Horizontal"
    and "\<forall>s\<in>set samples. arg_touch (snd s) = touch st"
  shows "starts_of AnimReach (snd (updates env st samples)) =
           replicate (crossings (reached st) (map (sample_ratio env) samples))
             (AnimationStart AnimReach CbAnimationReachCallback 0 1 500)
       \<and> haptics (snd (updates env st samples)) =
           crossings (reached st) (map (sample_ratio env) samples)"
  using assms
proof (induction samples arbitrary: st)
  case Nil
  show ?case by (simp add: starts_of_def haptics_def)
next
  case (Cons s samples)
  obtain cy args where s: "s = (cy, args)" by (cases s)
  obtain st1 es1 where u: "updateWith env cy st args = (st1, es1)"
    by (cases "updateWith env cy st args")
  have t: "arg_touch args = touch st" using Cons.prems(3) s by simp
  note S = updateWith_horizontal_state [OF Cons.prems(1,2) t u]
  note E = updateWith_horizontal_effects [OF Cons.prems(1,2) t u]
  have "\<forall>s\<in>set samples. arg_touch (snd s) = touch st1"
    using Cons.prems(3) S by simp
  with Cons.IH [of st1] S
  have IH: "starts_of AnimReach (snd (updates env st1 samples)) =
           replicate (crossings (reached st1) (map (sample_ratio env) samples))
             (AnimationStart AnimReach CbAnimationReachCallback 0 1 500)
       \<and> haptics (snd (updates env st1 samples)) =
           crossings (reached st1) (map (sample_ratio env) samples)"
    by blast
  have R: "crossings (reached st) (map (sample_ratio env) (s # samples)) =
      (if \<not> reached st \<and> fdiv env (px (arg_delta args)) (threshold env) \<ge> 1 then 1 else 0)
      + crossings (reached st1) (map (sample_ratio env) samples)"
    using S by (auto simp add: s sample_ratio_def)
  have U: "snd (updates env st (s # samples)) = es1 @ snd (updates env st1 samples)"
    by (simp add: s u split: prod.splits)
  show ?case
    unfolding U R starts_of_append haptics_append using IH E
    by (simp add: replicate_add)
qed

lemma kResetReachedOn_below: "kResetReachedOn < 0.95"
  by (simp add: kResetReachedOn_def)

lemma crossings_True_high:
  "\<forall>s\<in>set xs. kResetReachedOn \<le> f s \<Longrightarrow> crossings True (map f xs) = 0"
  by (induction xs) auto

lemma crossings_high:
  "\<forall>s\<in>set xs. kResetReachedOn \<le> f s \<Longrightarrow> crossings flag (map f xs) \<le> 1"
  by (induction xs) (auto simp add: crossings_True_high)

section \<open>The claims\<close>

text \<open>
  A ratio, a difference and a product below are the ones the program computes, in
  \<^verbatim>\<open>double\<close>: \<open>fdiv\<close>, \<open>fsub\<close> and \<open>fmul\<close>, for every rounding. Every statement takes
  the threshold to be positive where it speaks of a ratio: the threshold is
  \<^verbatim>\<open>ConvertFloatScale(50)\<close>, and a division by zero in the source is not a division by
  zero of the reals.
\<close>

subsection \<open>C1: the completion action is posted on release\<close>

text \<open>
  Claim C1. When \<^verbatim>\<open>processEnd\<close> runs with a horizontal orientation, the completion
  action is handed to \<^verbatim>\<open>Ui::PostponeCall\<close> exactly once if and only if the final ratio
  (the \<open>x\<close> of the override delta if there is one, else of the live delta, divided by
  the threshold) is at least 1 and the finish data holds a completion action. With a final
  ratio below 1, or without a completion action, nothing is posted, whatever the
  orientation. Posting is the only thing \<^verbatim>\<open>processEnd\<close> does with the action: at most
  one call is posted and the finish data is left as it was.
\<close>

theorem processEnd_schedules_completion:
  assumes "0 < threshold env"
  shows "let r = fdiv env (px (case d of Some v \<Rightarrow> v | None \<Rightarrow> delta st)) (threshold env);
             es = snd (processEnd env st d)
         in (orientation st = Some Horizontal \<longrightarrow>
               (\<forall>f. postponed es = [f] \<longleftrightarrow> r \<ge> 1 \<and> callback (finishByTopData st) = Some f))
          \<and> (r < 1 \<or> callback (finishByTopData st) = None \<longrightarrow> postponed es = [])
          \<and> length (postponed es) \<le> 1
          \<and> finishByTopData (fst (processEnd env st d)) = finishByTopData st"
  by (auto simp add: processEnd_def setOrientation_def Let_def postponed_append
      split: option.splits)

text \<open>The swipe of 100 units released where it is: the action \<open>1\<close> is posted once.\<close>

theorem processEnd_schedules_completion_witness:
  "0 < threshold env0 \<and> orientation st_horizontal = Some Horizontal
   \<and> 1 \<le> fdiv env0 (px (delta st_horizontal)) (threshold env0)
   \<and> callback (finishByTopData st_horizontal) = Some 1
   \<and> postponed (snd (processEnd env0 st_horizontal None)) = [1]"
proof -
  have h: "0 < threshold env0" by (simp add: env0_def arith_defs)
  have o: "orientation st_horizontal = Some Horizontal"
    and c: "callback (finishByTopData st_horizontal) = Some 1"
    and r: "1 \<le> fdiv env0 (px (delta st_horizontal)) (threshold env0)"
    by (simp_all add: st_horizontal_eq env0_def arith_defs)
  from processEnd_schedules_completion [OF h, where d = None and st = st_horizontal] o c r
  have "postponed (snd (processEnd env0 st_horizontal None)) = [1]"
    by (simp add: Let_def)
  with h o c r show ?thesis by simp
qed

subsection \<open>C2: the orientation decision\<close>

text \<open>
  Claim C2, amended. For an update sample that is not the first of its gesture and arrives
  while the orientation is unset, with \<open>diff = |delta.x| - |delta.y|\<close> as the program
  computes it (the difference of the two doubles, rounded): if \<open>diff > 1\<close> the
  orientation becomes Horizontal, if \<open>diff < -1\<close> it becomes Vertical, and otherwise it
  stays unset. In all three cases \<^verbatim>\<open>setOrientation\<close> runs, so the viewport's
  touch acceptance is set and \<^verbatim>\<open>disableScroll\<close> is called: with \<open>true\<close> and
  \<open>false\<close> when the orientation stays unset, as for Vertical. The claim as given says
  that no such call is made in the third case.
\<close>

theorem orientation_decision:
  assumes "started st" and "touch st = arg_touch args" and "orientation st = None"
  shows "let diff = fsub env \<bar>px (arg_delta args)\<bar> \<bar>py (arg_delta args)\<bar>;
             st1 = st\<lparr>delta := arg_delta args\<rparr>
         in (diff > 1 \<longrightarrow> updateWith env cy st args =
               (st1\<lparr>orientation := Some Horizontal\<rparr>,
                [SetAcceptTouchEvents False, DisableScroll True]))
          \<and> (diff < - 1 \<longrightarrow> updateWith env cy st args =
               (st1\<lparr>orientation := Some Vertical\<rparr>,
                [SetAcceptTouchEvents True, DisableScroll False]))
          \<and> (- 1 \<le> diff \<and> diff \<le> 1 \<longrightarrow> updateWith env cy st args =
               (st1\<lparr>orientation := None\<rparr>,
                [SetAcceptTouchEvents True, DisableScroll False]))"
  using assms
  by (simp add: updateWith_def setOrientation_def Let_def kOrientationThreshold_def)

text \<open>A move of 12.5 units to the left after the finger is down decides for Horizontal.\<close>

theorem orientation_decision_witness:
  "started st_tracking \<and> touch st_tracking = arg_touch (snd (sample_at 12.5))
   \<and> orientation st_tracking = None
   \<and> fsub env0 \<bar>px (arg_delta (snd (sample_at 12.5)))\<bar>
        \<bar>py (arg_delta (snd (sample_at 12.5)))\<bar> > 1
   \<and> updateWith env0 10 st_tracking (snd (sample_at 12.5)) =
       (st_tracking\<lparr>delta := QPointF 12.5 0, orientation := Some Horizontal\<rparr>,
        [SetAcceptTouchEvents False, DisableScroll True])"
proof -
  have a: "started st_tracking" and b: "touch st_tracking = arg_touch (snd (sample_at 12.5))"
    and c: "orientation st_tracking = None"
    by (simp_all add: st_tracking_eq sample_at_def)
  have d: "fsub env0 \<bar>px (arg_delta (snd (sample_at 12.5)))\<bar>
      \<bar>py (arg_delta (snd (sample_at 12.5)))\<bar> > 1"
    by (simp add: sample_at_def env0_def arith_defs)
  from orientation_decision [OF a b c, where env = env0 and cy = 10] d
  have "updateWith env0 10 st_tracking (snd (sample_at 12.5)) =
       (st_tracking\<lparr>delta := QPointF 12.5 0, orientation := Some Horizontal\<rparr>,
        [SetAcceptTouchEvents False, DisableScroll True])"
    by (simp add: Let_def sample_at_def)
  with a b c d show ?thesis by simp
qed

text \<open>
  The claim as given fails on a move of half a unit: the orientation stays unset, and the
  two calls on the scroll area are made.
\<close>

theorem undetermined_sample_calls_scroll:
  "started st_tracking \<and> touch st_tracking = arg_touch small_move
   \<and> orientation st_tracking = None
   \<and> - 1 \<le> fsub env0 \<bar>px (arg_delta small_move)\<bar> \<bar>py (arg_delta small_move)\<bar>
   \<and> fsub env0 \<bar>px (arg_delta small_move)\<bar> \<bar>py (arg_delta small_move)\<bar> \<le> 1
   \<and> orientation (fst (updateWith env0 10 st_tracking small_move)) = None
   \<and> scroll_calls (snd (updateWith env0 10 st_tracking small_move)) =
       [SetAcceptTouchEvents True, DisableScroll False]"
  by (simp add: st_tracking_eq small_move_def updateWith_def setOrientation_def Let_def
      kOrientationThreshold_def scroll_calls_def env0_def arith_defs)

subsection \<open>C3: the hysteresis of the reached flag\<close>

text \<open>
  Claim C3. For every state and every update sample, with the live ratio \<open>r\<close> of the
  sample, as the program computes it: the reached flag goes from false to true only while
  the orientation is Horizontal and \<open>r \<ge> 1\<close>; it goes from true to false only when
  \<open>r < 0.95\<close>; and a flag that is set stays set on a ratio of at least 0.95. The bound the
  program compares with is its constant, the double nearest to 0.95, which is below 0.95:
  both statements hold for it as well.
\<close>

theorem reached_hysteresis:
  assumes "0 < threshold env" and "updateWith env cy st args = (st', es)"
  shows "let r = fdiv env (px (arg_delta args)) (threshold env)
         in (\<not> reached st \<and> reached st' \<longrightarrow>
               orientation st = Some Horizontal \<and> orientation st' = Some Horizontal \<and> r \<ge> 1)
          \<and> (reached st \<and> \<not> reached st' \<longrightarrow> orientation st = Some Horizontal \<and> r < 0.95)
          \<and> (reached st \<and> 0.95 \<le> r \<longrightarrow> reached st')
          \<and> (reached st \<and> \<not> reached st' \<longrightarrow> r < kResetReachedOn)
          \<and> (reached st \<and> kResetReachedOn \<le> r \<longrightarrow> reached st')"
proof -
  have "(reached st \<and> \<not> reached st' \<longrightarrow>
           orientation st = Some Horizontal
         \<and> fdiv env (px (arg_delta args)) (threshold env) < kResetReachedOn)
      \<and> (\<not> reached st \<and> reached st' \<longrightarrow>
           orientation st = Some Horizontal \<and> orientation st' = Some Horizontal
         \<and> fdiv env (px (arg_delta args)) (threshold env) \<ge> 1)"
    using assms(2)
    by (auto simp add: updateWith_def setOrientation_def Let_def split: if_splits)
  with kResetReachedOn_below show ?thesis
    unfolding Let_def by (auto simp add: not_less)
qed

text \<open>
  In the horizontal swipe the flag is set; a sample of ratio 0.96875 keeps it and a sample
  of ratio 0.25 clears it.
\<close>

theorem reached_hysteresis_witness:
  "0 < threshold env0 \<and> reached st_horizontal
   \<and> reached (fst (updateWith env0 10 st_horizontal (snd (sample_at 48.4375))))
   \<and> \<not> reached (fst (updateWith env0 10 st_horizontal (snd (sample_at 12.5))))
   \<and> fdiv env0 (px (arg_delta (snd (sample_at 12.5)))) (threshold env0) < 0.95"
proof -
  have h: "0 < threshold env0" by (simp add: env0_def arith_defs)
  have r: "reached st_horizontal" by (simp add: st_horizontal_eq)
  have k: "0.95 \<le> fdiv env0 (px (arg_delta (snd (sample_at 48.4375)))) (threshold env0)"
    by (simp add: sample_at_def env0_def arith_defs)
  have "reached (fst (updateWith env0 10 st_horizontal (snd (sample_at 48.4375))))"
    using reached_hysteresis [OF h surjective_pairing,
        where cy = 10 and st = st_horizontal and args = "snd (sample_at 48.4375)"]
      r k
    by (simp add: Let_def)
  moreover have "\<not> reached (fst (updateWith env0 10 st_horizontal (snd (sample_at 12.5))))"
    by (simp add: st_horizontal_eq sample_at_def env0_def arith_defs updateWith_def Let_def
        kResetReachedOn_def)
  moreover have "fdiv env0 (px (arg_delta (snd (sample_at 12.5)))) (threshold env0) < 0.95"
    by (simp add: sample_at_def env0_def arith_defs)
  ultimately show ?thesis using h r by simp
qed

subsection \<open>C4: one reach animation per crossing\<close>

text \<open>
  Claim C4. For every sequence of update samples of a horizontal gesture, the reach
  animation is started once per crossing of the ratio 1 and not once per sample above 1:
  every start is \<^verbatim>\<open>start(animationReachCallback, 0., 1., 500)\<close>, the starts are as many
  as the crossings of the sequence of ratios, a sample starts the animation exactly when
  the flag was false and its ratio is at least 1, and there are as many haptic calls as
  starts. The ratios are those the program computes and the floor of the crossings is its
  constant, the double nearest to 0.95. In particular a sequence whose ratios stay at or
  above the floor, and so one whose ratios stay at or above 0.95, starts the animation at
  most once.
\<close>

theorem reach_animation_once_per_crossing:
  assumes "0 < threshold env" and "started st" and "orientation st = Some Horizontal"
    and "\<forall>s\<in>set samples. arg_touch (snd s) = touch st"
  shows "let es = snd (updates env st samples);
             n = crossings (reached st) (map (sample_ratio env) samples)
         in starts_of AnimReach es =
              replicate n (AnimationStart AnimReach CbAnimationReachCallback 0 1 500)
          \<and> haptics es = n
          \<and> ((\<forall>s\<in>set samples. kResetReachedOn \<le> sample_ratio env s) \<longrightarrow> n \<le> 1)
          \<and> ((\<forall>s\<in>set samples. 0.95 \<le> sample_ratio env s) \<longrightarrow> n \<le> 1)
          \<and> (\<forall>s\<in>set samples.
                starts_of AnimReach (snd (updateWith env (fst s) st (snd s))) \<noteq> []
                \<longleftrightarrow> \<not> reached st \<and> sample_ratio env s \<ge> 1)"
proof -
  have a: "\<forall>s\<in>set samples.
        starts_of AnimReach (snd (updateWith env (fst s) st (snd s))) \<noteq> []
        \<longleftrightarrow> \<not> reached st \<and> sample_ratio env s \<ge> 1"
  proof
    fix s assume "s \<in> set samples"
    then have t: "arg_touch (snd s) = touch st" using assms(4) by blast
    obtain st1 es1 where u: "updateWith env (fst s) st (snd s) = (st1, es1)"
      by (cases "updateWith env (fst s) st (snd s)")
    show "starts_of AnimReach (snd (updateWith env (fst s) st (snd s))) \<noteq> []
        \<longleftrightarrow> \<not> reached st \<and> sample_ratio env s \<ge> 1"
      using updateWith_horizontal_effects [OF assms(2,3) t u]
      by (simp add: u sample_ratio_def)
  qed
  have b: "(\<forall>s\<in>set samples. kResetReachedOn \<le> sample_ratio env s) \<longrightarrow>
        crossings (reached st) (map (sample_ratio env) samples) \<le> 1"
    using crossings_high [of samples "sample_ratio env" "reached st"] by blast
  have c: "(\<forall>s\<in>set samples. 0.95 \<le> sample_ratio env s) \<longrightarrow>
        crossings (reached st) (map (sample_ratio env) samples) \<le> 1"
  proof
    assume h: "\<forall>s\<in>set samples. 0.95 \<le> sample_ratio env s"
    have "\<forall>s\<in>set samples. kResetReachedOn \<le> sample_ratio env s"
    proof
      fix s assume "s \<in> set samples"
      with h have "0.95 \<le> sample_ratio env s" by blast
      with kResetReachedOn_below show "kResetReachedOn \<le> sample_ratio env s" by linarith
    qed
    with b show "crossings (reached st) (map (sample_ratio env) samples) \<le> 1" by blast
  qed
  show ?thesis
    unfolding Let_def using updates_horizontal [OF assms(2,3,4), of env] a b c by blast
qed

text \<open>
  Five samples of ratios 0.25, 1.25, 1.5, 0.96875 and 2 after the flag was set: the first
  clears the flag, the second crosses, and the three others start nothing.
\<close>

theorem reach_animation_once_per_crossing_witness:
  "0 < threshold env0 \<and> started st_horizontal \<and> orientation st_horizontal = Some Horizontal
   \<and> list_all (\<lambda>s. arg_touch (snd s) = touch st_horizontal) five_samples
   \<and> map (sample_ratio env0) five_samples = [0.25, 1.25, 1.5, 0.96875, 2]
   \<and> starts_of AnimReach (snd (updates env0 st_horizontal five_samples)) =
       [AnimationStart AnimReach CbAnimationReachCallback 0 1 500]
   \<and> haptics (snd (updates env0 st_horizontal five_samples)) = 1"
proof -
  have h: "0 < threshold env0" by (simp add: env0_def arith_defs)
  have a: "started st_horizontal" and b: "orientation st_horizontal = Some Horizontal"
    and r: "reached st_horizontal"
    by (simp_all add: st_horizontal_eq)
  have c: "\<forall>s\<in>set five_samples. arg_touch (snd s) = touch st_horizontal"
    by (simp add: five_samples_def sample_at_def st_horizontal_eq)
  have m: "map (sample_ratio env0) five_samples = [0.25, 1.25, 1.5, 0.96875, 2]"
    by (simp add: five_samples_def sample_at_def sample_ratio_def env0_def arith_defs)
  have n: "crossings (reached st_horizontal) (map (sample_ratio env0) five_samples) = 1"
    unfolding m using r by (simp add: kResetReachedOn_def)
  from reach_animation_once_per_crossing [OF h a b c]
  have "starts_of AnimReach (snd (updates env0 st_horizontal five_samples)) =
       [AnimationStart AnimReach CbAnimationReachCallback 0 1 500]
     \<and> haptics (snd (updates env0 st_horizontal five_samples)) = 1"
    unfolding Let_def n by simp
  with h a b c m show ?thesis by (simp add: list_all_iff)
qed

subsection \<open>C5: what processEnd does to the animations and the flags\<close>

text \<open>
  Claim C5, amended. Every call of \<^verbatim>\<open>processEnd\<close> clears the orientation,
  \<^verbatim>\<open>started\<close> and \<^verbatim>\<open>reached\<close>, and re-enables scrolling and touch acceptance. When
  the orientation was Horizontal it first stops the reach animation and the end
  animation, in this order, and then starts the end animation from the final ratio to 0
  over the slide-wrap duration. When the orientation was not Horizontal it stops and
  starts no animation: both handles are left as they were. The claim as given has every
  call start the end animation.
\<close>

theorem processEnd_animations:
  assumes "0 < threshold env" and "processEnd env st d = (st', es)"
  shows "let r = fdiv env (px (case d of Some v \<Rightarrow> v | None \<Rightarrow> delta st)) (threshold env)
         in orientation st' = None \<and> \<not> started st' \<and> \<not> reached st'
          \<and> scroll_calls es = [SetAcceptTouchEvents True, DisableScroll False]
          \<and> (orientation st = Some Horizontal \<longrightarrow>
               anim_calls es =
                 [AnimationStop AnimReach, AnimationStop AnimEnd,
                  AnimationStart AnimEnd CbUpdateRatio r 0 (slideWrapDuration env)]
               \<and> animationReach st' = None
               \<and> animationEnd st' = anim_start CbUpdateRatio r 0 (slideWrapDuration env))
          \<and> (orientation st \<noteq> Some Horizontal \<longrightarrow>
               anim_calls es = []
               \<and> animationReach st' = animationReach st
               \<and> animationEnd st' = animationEnd st)"
  using assms(2)
  by (auto simp add: processEnd_def setOrientation_def Let_def anim_calls_def scroll_calls_def
      split: option.splits if_splits)

text \<open>The horizontal swipe ended with an override delta of 125 units: final ratio 2.5.\<close>

theorem processEnd_animations_witness:
  "0 < threshold env0 \<and> orientation st_horizontal = Some Horizontal
   \<and> anim_calls (snd (processEnd env0 st_horizontal (Some (QPointF 125 0)))) =
       [AnimationStop AnimReach, AnimationStop AnimEnd,
        AnimationStart AnimEnd CbUpdateRatio 2.5 0 150]
   \<and> orientation (fst (processEnd env0 st_horizontal (Some (QPointF 125 0)))) = None
   \<and> \<not> started (fst (processEnd env0 st_horizontal (Some (QPointF 125 0))))
   \<and> \<not> reached (fst (processEnd env0 st_horizontal (Some (QPointF 125 0))))"
proof -
  have h: "0 < threshold env0" by (simp add: env0_def arith_defs)
  have o: "orientation st_horizontal = Some Horizontal" by (simp add: st_horizontal_eq)
  from processEnd_animations [OF h surjective_pairing,
      where st = st_horizontal and d = "Some (QPointF 125 0)"] o
  have "anim_calls (snd (processEnd env0 st_horizontal (Some (QPointF 125 0)))) =
       [AnimationStop AnimReach, AnimationStop AnimEnd,
        AnimationStart AnimEnd CbUpdateRatio 2.5 0 150]
     \<and> orientation (fst (processEnd env0 st_horizontal (Some (QPointF 125 0)))) = None
     \<and> \<not> started (fst (processEnd env0 st_horizontal (Some (QPointF 125 0))))
     \<and> \<not> reached (fst (processEnd env0 st_horizontal (Some (QPointF 125 0))))"
    by (simp add: Let_def env0_def arith_defs)
  with h o show ?thesis by simp
qed

text \<open>
  The claim as given fails when the gesture ends before an orientation is decided (the
  scroll area scrolls while the finger is down): no animation is stopped or started, and
  the end animation is not running afterwards.
\<close>

theorem processEnd_undetermined_starts_nothing:
  "orientation st_tracking = None
   \<and> anim_calls (snd (processEnd env0 st_tracking None)) = []
   \<and> animationEnd (fst (processEnd env0 st_tracking None)) = None
   \<and> snd (step env0 st_tracking Scrolls) = [SetAcceptTouchEvents True, DisableScroll False]"
  by (simp add: st_tracking_eq processEnd_def setOrientation_def Let_def anim_calls_def
      step_def)

subsection \<open>C6: the fields of an update notification\<close>

text \<open>
  Claim C6, amended. Every update notification carries the value \<open>r\<close> handed to
  \<^verbatim>\<open>updateRatio\<close> clamped to \<open>[0, 1.5]\<close> as its ratio, and
  \<^verbatim>\<open>int(SafeRound(-clamp(r, 0, 1.5) * threshold))\<close> as its translation, the product
  being the rounded product of the two doubles. For a
  notification made while an event is handled or on a tick of the reach animation, \<open>r\<close> is
  the unclamped \<open>delta.x / threshold\<close> of the state, the rounded quotient of the two
  doubles; for a notification made on a tick of
  the end animation, \<open>r\<close> is the value of that animation, since its callback is
  \<^verbatim>\<open>updateRatio\<close> itself. The ratio \<^verbatim>\<open>processEnd\<close> hands to the end animation as
  its first value is not clamped. The claim as given takes \<open>r\<close> to be
  \<open>delta.x / threshold\<close> for every notification.
\<close>

theorem update_notification_fields:
  assumes "0 < threshold env" and "step env st inp = (st', es)"
  shows "(\<forall>d\<in>set (notifications es).
            let r = (case inp of Tick AnimEnd v fin \<Rightarrow> v
                     | _ \<Rightarrow> fdiv env (px (delta st')) (threshold env))
            in ratio d = clamp r 0 1.5
             \<and> translation d = to_int (SafeRound env (fmul env (- clamp r 0 1.5) (threshold env)))
             \<and> 0 \<le> ratio d \<and> ratio d \<le> 1.5)
       \<and> (orientation st = Some Horizontal \<longrightarrow>
            starts_of AnimEnd (snd (processEnd env st dd)) =
              [AnimationStart AnimEnd CbUpdateRatio
                 (fdiv env (px (case dd of Some v \<Rightarrow> v | None \<Rightarrow> delta st)) (threshold env)) 0
                 (slideWrapDuration env)])"
proof -
  have main: "ratio d = clamp (case inp of Tick AnimEnd v fin \<Rightarrow> v
                                 | _ \<Rightarrow> fdiv env (px (delta st')) (threshold env)) 0 1.5
        \<and> translation d = to_int (SafeRound env
             (fmul env (- clamp (case inp of Tick AnimEnd v fin \<Rightarrow> v
                        | _ \<Rightarrow> fdiv env (px (delta st')) (threshold env)) 0 1.5) (threshold env)))"
    if d: "d \<in> set (notifications es)" for d
  proof (cases inp)
    case (EventIn cy e)
    have "st' = fst (filter_event env cy st e)" "es = fst (snd (filter_event env cy st e))"
      using assms(2) by (simp_all add: step_def EventIn case_prod_beta)
    then show ?thesis
      using d filter_event_notifications [of d env cy st e] by (simp add: EventIn)
  next
    case Scrolls
    then have "es = snd (processEnd env st None)" using assms(2) by (simp add: step_def)
    then show ?thesis using d processEnd_notifications [of env st None] by simp
  next
    case (Tick a v fin)
    show ?thesis
    proof (cases a)
      case AnimReach
      then show ?thesis
        using assms(2) d
        by (auto simp add: step_def Tick Let_def animationReachCallback_def
            updateRatio_notifications split: option.splits)
    next
      case AnimEnd
      then show ?thesis
        using assms(2) d
        by (auto simp add: step_def Tick Let_def updateRatio_notifications
            split: option.splits)
    qed
  qed
  have bounds: "(0::real) \<le> clamp r 0 1.5 \<and> clamp r 0 1.5 \<le> 1.5" for r
    by (simp add: clamp_def)
  have first: "\<forall>d\<in>set (notifications es).
            let r = (case inp of Tick AnimEnd v fin \<Rightarrow> v
                     | _ \<Rightarrow> fdiv env (px (delta st')) (threshold env))
            in ratio d = clamp r 0 1.5
             \<and> translation d = to_int (SafeRound env (fmul env (- clamp r 0 1.5) (threshold env)))
             \<and> 0 \<le> ratio d \<and> ratio d \<le> 1.5"
  proof
    fix d assume "d \<in> set (notifications es)"
    from main [OF this]
    show "let r = (case inp of Tick AnimEnd v fin \<Rightarrow> v
                   | _ \<Rightarrow> fdiv env (px (delta st')) (threshold env))
          in ratio d = clamp r 0 1.5
           \<and> translation d = to_int (SafeRound env (fmul env (- clamp r 0 1.5) (threshold env)))
           \<and> 0 \<le> ratio d \<and> ratio d \<le> 1.5"
      unfolding Let_def using bounds by metis
  qed
  have second: "orientation st = Some Horizontal \<longrightarrow>
            starts_of AnimEnd (snd (processEnd env st dd)) =
              [AnimationStart AnimEnd CbUpdateRatio
                 (fdiv env (px (case dd of Some v \<Rightarrow> v | None \<Rightarrow> delta st)) (threshold env)) 0
                 (slideWrapDuration env)]"
  proof
    assume o: "orientation st = Some Horizontal"
    obtain st1 es1 where p: "processEnd env st dd = (st1, es1)"
      by (cases "processEnd env st dd")
    from o p have "starts_of AnimEnd es1 =
              [AnimationStart AnimEnd CbUpdateRatio
                 (fdiv env (px (case dd of Some v \<Rightarrow> v | None \<Rightarrow> delta st)) (threshold env)) 0
                 (slideWrapDuration env)]"
      by (auto simp add: processEnd_def setOrientation_def Let_def starts_of_def
          split: option.splits if_splits)
    then show "starts_of AnimEnd (snd (processEnd env st dd)) =
              [AnimationStart AnimEnd CbUpdateRatio
                 (fdiv env (px (case dd of Some v \<Rightarrow> v | None \<Rightarrow> delta st)) (threshold env)) 0
                 (slideWrapDuration env)]"
      by (simp add: p)
  qed
  from first second show ?thesis by blast
qed

text \<open>
  One more sample of the horizontal swipe of 100 units: the internal ratio is 2, the
  notification shows 1.5 and a translation of \<open>-75\<close>.
\<close>

theorem update_notification_fields_witness:
  "0 < threshold env0
   \<and> notifications (snd (step env0 st_horizontal (touch_at TouchUpdate 100 100))) =
       [\<lparr>ratio = 1.5, reachRatio = 0, translation = - 75, msgBareId_d = 7, cursorTop_d = 10\<rparr>]
   \<and> fdiv env0 (px (delta (fst (step env0 st_horizontal (touch_at TouchUpdate 100 100))))) (threshold env0)
       = 2
   \<and> ratio \<lparr>ratio = 1.5, reachRatio = 0, translation = - 75, msgBareId_d = 7,
             cursorTop_d = 10\<rparr> = clamp 2 0 1.5"
proof -
  let ?d = "\<lparr>ratio = 1.5, reachRatio = 0, translation = - 75, msgBareId_d = 7,
             cursorTop_d = 10\<rparr>"
  have h: "0 < threshold env0" by (simp add: env0_def arith_defs)
  have s: "step env0 st_horizontal (touch_at TouchUpdate 100 100) =
      (st_horizontal, [Update ?d])"
    by (simp add: st_horizontal_eq closure_defs example_defs)
  have n: "notifications (snd (step env0 st_horizontal (touch_at TouchUpdate 100 100))) = [?d]"
    by (simp add: s)
  have r: "fdiv env0 (px (delta (fst (step env0 st_horizontal (touch_at TouchUpdate 100 100))))) (threshold env0) = 2"
    unfolding s by (simp add: st_horizontal_eq env0_def arith_defs)
  from update_notification_fields [OF h surjective_pairing,
      where st = st_horizontal and inp = "touch_at TouchUpdate 100 100"]
  have "ratio ?d = clamp 2 0 1.5"
    unfolding n r by (simp add: touch_at_def Let_def)
  with h n r show ?thesis by simp
qed

text \<open>
  The claim as given fails on the last tick of the end animation after the release of
  that swipe: the animation has arrived at 0 and the notification shows the ratio 0, while
  \<open>delta.x / threshold\<close> is still 2, which clamps to 1.5.
\<close>

theorem end_tick_ratio_not_from_delta:
  "map ratio (notifications (snd (step env0 st_released (Tick AnimEnd 0 True)))) = [0]
   \<and> clamp (fdiv env0 (px (delta (fst (step env0 st_released (Tick AnimEnd 0 True))))) (threshold env0))
        0 1.5 = 1.5"
  by (simp add: st_released_eq closure_defs env0_def arith_defs std_round_def)

subsection \<open>C7: the first update of a gesture\<close>

text \<open>
  Claim C7, amended. An update is the first of a gesture when \<^verbatim>\<open>started\<close> is false or
  the source type differs from the one recorded. On it the recognizer sets
  \<^verbatim>\<open>started\<close>, records the source type, seeds \<^verbatim>\<open>startAt\<close>, zeroes \<^verbatim>\<open>delta\<close>,
  captures \<^verbatim>\<open>cursorTop\<close> and calls the finish resolver exactly once, on that position;
  an update that is not the first of its gesture does not call the resolver and leaves the
  finish data alone, and whatever reaches the recognizer (an event, a scroll of the scroll
  area, a tick of an animation) calls the resolver only by starting a gesture. If the resolver yields no completion action the orientation becomes
  Vertical. Otherwise the orientation and the reached flag are left as they were: the
  gesture is then in Tracking(Undetermined) when it started from an idle state, and keeps
  the orientation of the stream before it after a change of source type. The claim as
  given has the gesture enter Tracking(Undetermined) in that case too.
\<close>

theorem gesture_start:
  assumes "st = fst (run env initial_state ins)"
    and "updateWith env cy st args = (st', es)"
  shows "(\<not> started st \<or> touch st \<noteq> arg_touch args \<longrightarrow>
            started st' \<and> touch st' = arg_touch args \<and> startAt st' = arg_position args
          \<and> delta st' = QPointF 0 0 \<and> cursorTop st' = cy
          \<and> finishByTopData st' = generateFinishByTop env cy
          \<and> resolver_calls es = [cy]
          \<and> reached st' = reached st
          \<and> (callback (generateFinishByTop env cy) = None \<longrightarrow>
                 orientation st' = Some Vertical
               \<and> scroll_calls es = [SetAcceptTouchEvents True, DisableScroll False])
          \<and> (callback (generateFinishByTop env cy) \<noteq> None \<longrightarrow>
                 orientation st' = orientation st \<and> scroll_calls es = []
               \<and> (\<not> started st \<longrightarrow> orientation st' = None)))
       \<and> (started st \<and> touch st = arg_touch args \<longrightarrow>
            resolver_calls es = [] \<and> finishByTopData st' = finishByTopData st)
       \<and> (resolver_calls (snd (step env st inp)) \<noteq> [] \<longrightarrow>
            resolver_calls (snd (step env st inp)) = [cursorTop (fst (step env st inp))]
          \<and> started (fst (step env st inp))
          \<and> delta (fst (step env st inp)) = QPointF 0 0
          \<and> (\<not> started st \<or> touch st \<noteq> touch (fst (step env st inp))))"
proof -
  have "idle_clear st" using assms(1) reachable_idle by simp
  then have i: "\<not> started st \<longrightarrow> orientation st = None"
    by (auto simp add: idle_clear_def)
  have u: "(\<not> started st \<or> touch st \<noteq> arg_touch args \<longrightarrow>
            started st' \<and> touch st' = arg_touch args \<and> startAt st' = arg_position args
          \<and> delta st' = QPointF 0 0 \<and> cursorTop st' = cy
          \<and> finishByTopData st' = generateFinishByTop env cy
          \<and> resolver_calls es = [cy]
          \<and> reached st' = reached st
          \<and> (callback (generateFinishByTop env cy) = None \<longrightarrow>
                 orientation st' = Some Vertical
               \<and> scroll_calls es = [SetAcceptTouchEvents True, DisableScroll False])
          \<and> (callback (generateFinishByTop env cy) \<noteq> None \<longrightarrow>
                 orientation st' = orientation st \<and> scroll_calls es = []
               \<and> (\<not> started st \<longrightarrow> orientation st' = None)))
       \<and> (started st \<and> touch st = arg_touch args \<longrightarrow>
            resolver_calls es = [] \<and> finishByTopData st' = finishByTopData st)"
    using assms(2) i
    by (auto simp add: updateWith_def setOrientation_def Let_def scroll_calls_def updateRatio_def
        resolver_calls_append split: if_splits)
  from u step_resolver_calls [of env st inp] show ?thesis by blast
qed

text \<open>
  The finger put down after a swipe was released: the gesture starts from an idle state,
  the resolver is asked once and the orientation is unset.
\<close>

theorem gesture_start_witness:
  "st_released = fst (run env0 initial_state (swipe_left @ [touch_at TouchEnd 100 100]))
   \<and> \<not> started st_released
   \<and> callback (generateFinishByTop env0 10) = Some 1
   \<and> started (fst (updateWith env0 10 st_released (snd (sample_at 0))))
   \<and> orientation (fst (updateWith env0 10 st_released (snd (sample_at 0)))) = None
   \<and> resolver_calls (snd (updateWith env0 10 st_released (snd (sample_at 0)))) = [10]"
proof -
  have r: "st_released = fst (run env0 initial_state (swipe_left @ [touch_at TouchEnd 100 100]))"
    by (simp add: st_released_def)
  have s: "\<not> started st_released" by (simp add: st_released_eq)
  have c: "callback (generateFinishByTop env0 10) = Some 1" by (simp add: env0_def arith_defs)
  from gesture_start [OF r surjective_pairing, where cy = 10 and args = "snd (sample_at 0)"] s c
  have "started (fst (updateWith env0 10 st_released (snd (sample_at 0))))
   \<and> orientation (fst (updateWith env0 10 st_released (snd (sample_at 0)))) = None
   \<and> resolver_calls (snd (updateWith env0 10 st_released (snd (sample_at 0)))) = [10]"
    by blast
  with r s c show ?thesis by blast
qed

text \<open>
  The claim as given fails when a wheel event arrives during the horizontal touch swipe:
  the update is the first of a wheel gesture, the resolver yields a completion action, and
  the orientation is still Horizontal, with the reached flag still set.
\<close>

theorem source_change_keeps_orientation:
  "started st_horizontal \<and> touch st_horizontal
   \<and> callback (generateFinishByTop env0 10) = Some 1
   \<and> fst (filter_event env0 10 st_horizontal (Wheel ScrollUpdate 0 (QPointF 3 0))) =
       fst (updateWith env0 10 st_horizontal
              \<lparr>arg_position = QPointF 0 0, arg_delta = QPointF 97 0, arg_touch = False\<rparr>)
   \<and> resolver_calls (fst (snd (filter_event env0 10 st_horizontal
        (Wheel ScrollUpdate 0 (QPointF 3 0))))) = [10]
   \<and> orientation (fst (filter_event env0 10 st_horizontal
        (Wheel ScrollUpdate 0 (QPointF 3 0)))) = Some Horizontal
   \<and> reached (fst (filter_event env0 10 st_horizontal (Wheel ScrollUpdate 0 (QPointF 3 0))))"
  by (simp add: st_horizontal_eq closure_defs env0_def arith_defs)

subsection \<open>C8: wheel events that end the gesture\<close>

text \<open>
  Claim C8, amended. A wheel event with a mouse button held, or in the phase scroll-end or
  momentum, feeds no update to the recognizer: no notification is made, the resolver is
  not called, \<^verbatim>\<open>delta\<close> and \<^verbatim>\<open>startAt\<close> are left alone and no gesture starts. On
  macOS, or when the phase is \<^verbatim>\<open>NoScrollPhase\<close>, the event is ignored and the state is
  unchanged. Otherwise the event cancels the gesture: the filter runs \<^verbatim>\<open>processEnd()\<close>
  without an override delta. In every case the filter returns Continue. The claim as
  given has the state unchanged in every case.
\<close>

theorem wheel_cancel_is_processEnd:
  assumes "buttons \<noteq> 0 \<or> phase = ScrollEnd \<or> phase = ScrollMomentum"
    and "filter_event env cy st (Wheel phase buttons sd) = (st', es, res)"
  shows "(if isMac env \<or> phase = NoScrollPhase then st' = st \<and> es = []
          else (st', es) = processEnd env st None)
         \<and> res = Continue
         \<and> notifications es = [] \<and> resolver_calls es = []
         \<and> delta st' = delta st \<and> startAt st' = startAt st \<and> (started st' \<longrightarrow> started st)"
  using assms
  by (auto simp add: filter_event_def wheel_cancel_def processEnd_def setOrientation_def Let_def
        notifications_append resolver_calls_append
      split: option.splits if_splits prod.splits)

text \<open>A wheel event with the left button held while the finger is down.\<close>

theorem wheel_cancel_is_processEnd_witness:
  "(1 :: 32 word) \<noteq> 0
   \<and> \<not> isMac env0
   \<and> filter_event env0 10 st_tracking (Wheel ScrollUpdate 1 (QPointF 5 0)) =
       (fst (processEnd env0 st_tracking None), snd (processEnd env0 st_tracking None), Continue)"
proof -
  have b: "(1 :: 32 word) \<noteq> 0 \<or> ScrollUpdate = ScrollEnd \<or> ScrollUpdate = ScrollMomentum"
    by simp
  have m: "\<not> isMac env0" by (simp add: env0_def arith_defs)
  obtain st' es res
    where f: "filter_event env0 10 st_tracking (Wheel ScrollUpdate 1 (QPointF 5 0))
      = (st', es, res)"
    by (cases "filter_event env0 10 st_tracking (Wheel ScrollUpdate 1 (QPointF 5 0))")
  from wheel_cancel_is_processEnd [OF b f] m
  have "(st', es) = processEnd env0 st_tracking None \<and> res = Continue" by simp
  then have "st' = fst (processEnd env0 st_tracking None)"
    and "es = snd (processEnd env0 st_tracking None)" and "res = Continue"
    by (metis fst_conv, metis snd_conv, simp)
  with f m show ?thesis by simp
qed

text \<open>
  The claim as given fails on a momentum event after the wheel gesture of 75 units: the
  gesture ends, its completion action is posted and the end animation starts.
\<close>

theorem wheel_momentum_ends_gesture:
  "started st_wheel \<and> orientation st_wheel = Some Horizontal
   \<and> \<not> started (fst (filter_event env0 10 st_wheel (Wheel ScrollMomentum 0 (QPointF 0 0))))
   \<and> orientation (fst (filter_event env0 10 st_wheel (Wheel ScrollMomentum 0 (QPointF 0 0))))
       = None
   \<and> fst (snd (filter_event env0 10 st_wheel (Wheel ScrollMomentum 0 (QPointF 0 0)))) =
       [PostponeCall 1, AnimationStop AnimReach, AnimationStop AnimEnd,
        AnimationStart AnimEnd CbUpdateRatio 1.5 0 150,
        SetAcceptTouchEvents True, DisableScroll False]"
  by (simp add: st_wheel_eq closure_defs env0_def arith_defs)

subsection \<open>C9: processEnd outside a horizontal gesture\<close>

text \<open>
  Claim C9. When \<^verbatim>\<open>processEnd\<close> runs while the orientation is not Horizontal (Vertical
  or unset), it starts and stops no animation, makes no update notification and posts no
  completion action. All it does is clear the orientation, which sets the viewport's touch
  acceptance to true and calls \<^verbatim>\<open>disableScroll(false)\<close>, and set \<^verbatim>\<open>started\<close> and
  \<^verbatim>\<open>reached\<close> to false.
\<close>

theorem processEnd_not_horizontal:
  assumes "orientation st \<noteq> Some Horizontal"
  shows "processEnd env st d =
           (st\<lparr>orientation := None, started := False, reached := False\<rparr>,
            [SetAcceptTouchEvents True, DisableScroll False])
         \<and> anim_calls (snd (processEnd env st d)) = []
         \<and> notifications (snd (processEnd env st d)) = []
         \<and> postponed (snd (processEnd env st d)) = []"
  using assms by (simp add: processEnd_def setOrientation_def anim_calls_def)

text \<open>
  A vertical gesture (the resolver finds no completion action) ended far to the left: the
  override delta of 300 units changes nothing.
\<close>

theorem processEnd_not_horizontal_witness:
  "orientation (fst (run env_none initial_state [touch_at TouchBegin 200 100])) = Some Vertical
   \<and> processEnd env_none (fst (run env_none initial_state [touch_at TouchBegin 200 100]))
       (Some (QPointF 300 0)) =
       ((fst (run env_none initial_state [touch_at TouchBegin 200 100]))
          \<lparr>orientation := None, started := False, reached := False\<rparr>,
        [SetAcceptTouchEvents True, DisableScroll False])"
proof -
  let ?st = "fst (run env_none initial_state [touch_at TouchBegin 200 100])"
  have o: "orientation ?st = Some Vertical"
    by (simp add: closure_defs example_defs)
  then have h: "orientation ?st \<noteq> Some Horizontal" by simp
  from processEnd_not_horizontal [OF h, where env = env_none and d = "Some (QPointF 300 0)"] o
  show ?thesis by simp
qed

subsection \<open>C10: what the filter returns\<close>

text \<open>
  Claim C10. The filter returns Cancel for every touch event (begin, update, end or
  cancel) it accepts, that is on macOS or when the event's device is a touchscreen,
  whether the event fed an update or ended the gesture. It returns Continue for a touch
  event off macOS whose device is missing or is not a touchscreen, and for every event of
  another type.
\<close>

theorem filter_event_result:
  "snd (snd (filter_event env cy st e)) =
     (case e of
        TouchEvent ty device touches \<Rightarrow>
          if isMac env \<or> device = Some TouchScreen then Cancel else Continue
      | _ \<Rightarrow> Continue)"
  by (simp add: filter_event_def Let_def split: QEvent.splits prod.splits)

text \<open>
  Off macOS, the same touch update is consumed when it comes from a touchscreen and passed
  on when it comes from a touchpad; a wheel update is passed on.
\<close>

theorem filter_event_result_witness:
  "snd (snd (filter_event env0 10 st_tracking
       (TouchEvent TouchUpdate (Some TouchScreen) (finger 150 100)))) = Cancel
   \<and> snd (snd (filter_event env0 10 st_tracking
       (TouchEvent TouchUpdate (Some TouchPad) (finger 150 100)))) = Continue
   \<and> snd (snd (filter_event env0 10 st_tracking (Wheel ScrollUpdate 0 (QPointF 5 0))))
       = Continue"
  using filter_event_result [of env0 10 st_tracking
      "TouchEvent TouchUpdate (Some TouchScreen) (finger 150 100)"]
    filter_event_result [of env0 10 st_tracking
      "TouchEvent TouchUpdate (Some TouchPad) (finger 150 100)"]
    filter_event_result [of env0 10 st_tracking "Wheel ScrollUpdate 0 (QPointF 5 0)"]
  by (simp add: env0_def arith_defs)

end
